theory Spec2Isabelle
  imports Main "HOL-Library.Sublist"
begin

section \<open>The installer's world\<close>

text \<open>
  \<^verbatim>\<open>installer-script.py\<close> is a straight-line script over the operating system: it reads
  the platform name, environment variables and the filesystem, spawns \<^verbatim>\<open>python3\<close>
  subprocesses, and rewrites one directory. The embedding passes the state of that world
  explicitly. Console output (\<^verbatim>\<open>print_success\<close>, \<^verbatim>\<open>print_error\<close>, ...) goes to a stream
  that nothing in the script reads back and is left out; the one expression inside a
  print call that can raise (\<^verbatim>\<open>e.stderr.decode()\<close>, line 239) is kept.

  A path is the list of its parts, as \<^verbatim>\<open>pathlib\<close> keeps it: \<^verbatim>\<open>p / "a/b"\<close> appends the
  parts \<^verbatim>\<open>a\<close> and \<^verbatim>\<open>b\<close>. Absolute POSIX paths start with the part \<^verbatim>\<open>/\<close>, the Windows
  program paths with the drive part \<^verbatim>\<open>C:\<close>.
\<close>

type_synonym path = "string list"

text \<open>Bytes captured from a child's stream, up to what \<^verbatim>\<open>bytes.decode()\<close> makes of
  them: well-formed UTF-8 for some text (empty text for no bytes), or not.\<close>

datatype captured = Utf8 string | Invalid_utf8

datatype exn =
    TypeError
  | FileNotFoundError
  | CalledProcessError "captured option"
  | UnicodeDecodeError
  | PermissionError
  | FileExistsError
  | NotADirectoryError
  | IsADirectoryError
  | ShutilError
  | TOMLDecodeError
  | OtherError string

text \<open>A filesystem entry: a directory, or a regular file with its bytes and permission
  bits. Symbolic links and directory permissions are not tracked.\<close>

datatype node = Dir | File (data: string) (mode: nat)

text \<open>The filesystem calls the script makes that the operating system may refuse.\<close>

datatype fs_call =
    Mkdir path
  | Rmtree path
  | Copytree path path
  | Chmod path
  | Open path

text \<open>The parsed manifest, at the shape of a well-typed \<^verbatim>\<open>pyproject.toml\<close>: the key
  \<^verbatim>\<open>project\<close>, when present, is a table, and its key \<^verbatim>\<open>dependencies\<close>, when present,
  is an array of strings.\<close>

datatype project_table = Project_table (dependencies: "string list option")

datatype pyproject = Pyproject (project: "project_table option")

record world =
  system :: string                                  \<comment> \<open>\<^verbatim>\<open>platform.system()\<close>\<close>
  home :: path                                      \<comment> \<open>\<^verbatim>\<open>Path.home()\<close>\<close>
  script_dir :: path                                \<comment> \<open>\<^verbatim>\<open>Path(__file__).parent.absolute()\<close>\<close>
  environ :: "string \<rightharpoonup> string"                      \<comment> \<open>\<^verbatim>\<open>os.getenv\<close>\<close>
  tomllib :: "(string \<Rightarrow> exn + pyproject) option"   \<comment> \<open>the imported parser, \<^verbatim>\<open>None\<close> if neither import worked\<close>
  fs :: "path \<rightharpoonup> node"
  denied :: "fs_call \<Rightarrow> bool"                        \<comment> \<open>calls the operating system refuses\<close>
  calls :: "string list list"                       \<comment> \<open>argument vectors handed to \<^verbatim>\<open>subprocess.run\<close>, in order\<close>

text \<open>What running a child process does is outside the script: a \<open>runner\<close> gives, for
  an argument vector and a world, either the exception \<^verbatim>\<open>subprocess.run\<close> raises before a
  return code exists, or the return code with the captured standard error, and the world
  the child leaves behind.\<close>

datatype proc_result = Run_raised exn | Run_completed int captured

type_synonym runner = "string list \<Rightarrow> world \<Rightarrow> proc_result \<times> world"

datatype outcome = Exit nat | Uncaught exn

section \<open>Library calls\<close>

definition Path :: "string \<Rightarrow> path" where
  \<comment> \<open>an environment-supplied directory is kept as one anchor part\<close>
  "Path s = [s]"

definition exists :: "world \<Rightarrow> path \<Rightarrow> bool" where
  "exists w p = (fs w p \<noteq> None)"

fun is_file :: "node option \<Rightarrow> bool" where
  "is_file (Some (File d m)) = True"
| "is_file _ = False"

text \<open>\<^verbatim>\<open>subprocess.run(argv, capture_output=capture, check=check)\<close>: the call is logged,
  and with \<open>check\<close> a non-zero return code becomes \<^verbatim>\<open>CalledProcessError\<close>, which carries
  the standard error only when it was captured.\<close>

definition subprocess_run ::
    "runner \<Rightarrow> string list \<Rightarrow> bool \<Rightarrow> bool \<Rightarrow> world \<Rightarrow> (exn + int) \<times> world" where
  "subprocess_run run argv capture check w =
     (case run argv w of (r, w') \<Rightarrow>
        let w'' = w'\<lparr>calls := calls w @ [argv]\<rparr> in
        (case r of
           Run_raised e \<Rightarrow> (Inl e, w'')
         | Run_completed rc err \<Rightarrow>
             if check \<and> rc \<noteq> 0
             then (Inl (CalledProcessError (if capture then Some err else None)), w'')
             else (Inr rc, w'')))"

text \<open>\<^verbatim>\<open>Path.mkdir(parents=True, exist_ok=True)\<close>: every missing ancestor and the
  directory itself are created; a regular file on the way is an error.\<close>

definition mkdir_parents :: "path \<Rightarrow> world \<Rightarrow> exn + world" where
  "mkdir_parents p w =
     (if denied w (Mkdir p) then Inl PermissionError
      else if list_ex (\<lambda>q. is_file (fs w q)) (tl (prefixes p)) then Inl FileExistsError
      else Inr (w\<lparr>fs := (\<lambda>q. if q \<noteq> [] \<and> prefix q p \<and> fs w q = None then Some Dir
                              else fs w q)\<rparr>))"

text \<open>\<^verbatim>\<open>shutil.rmtree(p)\<close>: the directory and everything below it go.\<close>

definition rmtree :: "path \<Rightarrow> world \<Rightarrow> exn + world" where
  "rmtree p w =
     (if denied w (Rmtree p) then Inl PermissionError
      else case fs w p of
        None \<Rightarrow> Inl FileNotFoundError
      | Some (File d m) \<Rightarrow> Inl NotADirectoryError
      | Some Dir \<Rightarrow> Inr (w\<lparr>fs := (\<lambda>q. if prefix p q then None else fs w q)\<rparr>))"

text \<open>\<^verbatim>\<open>shutil.copytree(src, dst)\<close> with its defaults: \<open>src\<close> must be a directory and
  \<open>dst\<close> must not exist; \<open>dst\<close> is made with its missing ancestors and every entry below
  \<open>src\<close> is written at the same place below \<open>dst\<close>, permission bits included. Nothing is
  ever deleted. Copying a tree into itself recurses until the operating system gives up,
  which is an error here. What a failing call leaves half-done is not modelled.\<close>

definition copytree :: "path \<Rightarrow> path \<Rightarrow> world \<Rightarrow> exn + world" where
  "copytree src dst w =
     (if denied w (Copytree src dst) then Inl PermissionError
      else case fs w src of
        None \<Rightarrow> Inl FileNotFoundError
      | Some (File d m) \<Rightarrow> Inl NotADirectoryError
      | Some Dir \<Rightarrow>
          if fs w dst \<noteq> None then Inl FileExistsError
          else if prefix src dst then Inl ShutilError
          else if list_ex (\<lambda>q. is_file (fs w q)) (tl (prefixes dst)) then Inl NotADirectoryError
          else Inr (w\<lparr>fs := (\<lambda>q.
                 if prefix dst q then
                   (case fs w (src @ drop (length dst) q) of
                      Some n \<Rightarrow> Some n
                    | None \<Rightarrow> fs w q)
                 else if q \<noteq> [] \<and> prefix q dst \<and> fs w q = None then Some Dir
                 else fs w q)\<rparr>))"

text \<open>\<^verbatim>\<open>os.chmod(p, m)\<close> replaces the permission bits of the entry at \<open>p\<close>.\<close>

fun set_mode :: "nat \<Rightarrow> node \<Rightarrow> node" where
  "set_mode m Dir = Dir"
| "set_mode m (File d m') = File d m"

definition chmod :: "path \<Rightarrow> nat \<Rightarrow> world \<Rightarrow> exn + world" where
  "chmod p m w =
     (if denied w (Chmod p) then Inl PermissionError
      else case fs w p of
        None \<Rightarrow> Inl FileNotFoundError
      | Some n \<Rightarrow> Inr (w\<lparr>fs := (fs w)(p \<mapsto> set_mode m n)\<rparr>))"

text \<open>\<^verbatim>\<open>open(p, "rb")\<close> followed by reading the whole file.\<close>

definition open_rb :: "world \<Rightarrow> path \<Rightarrow> exn + string" where
  "open_rb w p =
     (if denied w (Open p) then Inl PermissionError
      else case fs w p of
        None \<Rightarrow> Inl FileNotFoundError
      | Some Dir \<Rightarrow> Inl IsADirectoryError
      | Some (File d m) \<Rightarrow> Inr d)"

text \<open>\<^verbatim>\<open>e.stderr.decode() if e.stderr else 'Unknown error'\<close> (line 239): no capture and
  no bytes are both falsy; bytes that are not UTF-8 make \<^verbatim>\<open>decode\<close> raise.\<close>

fun decode_stderr :: "captured option \<Rightarrow> exn + string" where
  "decode_stderr None = Inr ''Unknown error''"
| "decode_stderr (Some (Utf8 s)) = Inr (if s = [] then ''Unknown error'' else s)"
| "decode_stderr (Some Invalid_utf8) = Inl UnicodeDecodeError"

section \<open>The stages\<close>

definition check_platform :: "world \<Rightarrow> bool" where
  "check_platform w =
     (if system w = ''Darwin'' then True
      else if system w = ''Windows'' then True
      else False)"

definition check_davinci_resolve :: "world \<Rightarrow> bool" where
  "check_davinci_resolve w =
     (if system w = ''Darwin'' then
        list_ex (exists w)
          [[''/'', ''Applications'', ''DaVinci Resolve'', ''DaVinci Resolve.app''],
           [''/'', ''Applications'', ''DaVinci Resolve Studio'', ''DaVinci Resolve Studio.app'']]
      else if system w = ''Windows'' then
        list_ex (exists w)
          [[''C:'', ''Program Files'', ''Blackmagic Design'', ''DaVinci Resolve'', ''Resolve.exe''],
           [''C:'', ''Program Files'', ''Blackmagic Design'', ''DaVinci Resolve Studio'', ''Resolve.exe'']]
      else False)"

text \<open>The handler of \<^verbatim>\<open>check_python_installation\<close> (line 143) catches
  \<^verbatim>\<open>CalledProcessError\<close> and \<^verbatim>\<open>FileNotFoundError\<close>; anything else leaves the function.\<close>

fun python_handler :: "exn \<Rightarrow> exn + bool" where
  "python_handler (CalledProcessError err) = Inr False"
| "python_handler FileNotFoundError = Inr False"
| "python_handler e = Inl e"

definition check_python_installation :: "runner \<Rightarrow> world \<Rightarrow> (exn + bool) \<times> world" where
  "check_python_installation run w =
     (case subprocess_run run [''python3'', ''--version''] True True w of
        (Inl e, w1) \<Rightarrow> (python_handler e, w1)
      | (Inr rc1, w1) \<Rightarrow>
     (case subprocess_run run [''which'', ''python3''] True True w1 of
        (Inl e, w2) \<Rightarrow> (python_handler e, w2)
      | (Inr rc2, w2) \<Rightarrow>
     (case subprocess_run run
             [''python3'', ''-c'',
              ''import sys; sys.exit(0 if sys.version_info >= (3, 8) else 1)'']
             True False w2 of
        (Inl e, w3) \<Rightarrow> (python_handler e, w3)
      | (Inr rc3, w3) \<Rightarrow> (if rc3 \<noteq> 0 then (Inr False, w3) else (Inr True, w3)))))"

definition check_pip_installation :: "runner \<Rightarrow> world \<Rightarrow> (exn + bool) \<times> world" where
  "check_pip_installation run w =
     (case subprocess_run run [''python3'', ''-m'', ''pip'', ''--version''] True True w of
        (Inr rc1, w1) \<Rightarrow> (Inr True, w1)
      | (Inl (CalledProcessError err1), w1) \<Rightarrow>
          (case subprocess_run run [''python3'', ''-m'', ''ensurepip'', ''--default-pip'']
                  False True w1 of
             (Inr rc2, w2) \<Rightarrow> (Inr True, w2)
           | (Inl (CalledProcessError err2), w2) \<Rightarrow> (Inr False, w2)
           | (Inl e, w2) \<Rightarrow> (Inl e, w2))
      | (Inl e, w1) \<Rightarrow> (Inl e, w1))"

text \<open>The hardcoded list, written out three times in the source (lines 185, 194, 212).\<close>

definition fallback_dependencies :: "string list" where
  "fallback_dependencies = [''pyqt6>=6.10.0'', ''requests>=2.31.0'', ''watchdog>=3.0.0'']"

definition pyproject_path :: "world \<Rightarrow> path" where
  "pyproject_path w = script_dir w @ [''frontend'', ''plugin'', ''pyproject.toml'']"

definition get_dependencies_from_pyproject :: "world \<Rightarrow> string list" where
  "get_dependencies_from_pyproject w =
     (if \<not> exists w (pyproject_path w) then fallback_dependencies
      else case tomllib w of
        None \<Rightarrow> fallback_dependencies
      | Some load \<Rightarrow>
          (case open_rb w (pyproject_path w) of
             Inl e \<Rightarrow> fallback_dependencies
           | Inr bytes \<Rightarrow>
               (case load bytes of
                  Inl e \<Rightarrow> fallback_dependencies
                | Inr doc \<Rightarrow>
                    (let deps =
                       (case project doc of
                          None \<Rightarrow> []
                        | Some table \<Rightarrow>
                            (case dependencies table of None \<Rightarrow> [] | Some ds \<Rightarrow> ds))
                     in if deps \<noteq> [] then deps else []))))"

text \<open>The loop of \<^verbatim>\<open>install_dependencies\<close> (lines 228-243). Only
  \<^verbatim>\<open>CalledProcessError\<close> is caught; its handler decodes the captured standard error
  before it returns \<^verbatim>\<open>False\<close>.\<close>

fun install_loop :: "runner \<Rightarrow> string list \<Rightarrow> world \<Rightarrow> (exn + bool) \<times> world" where
  "install_loop run [] w = (Inr True, w)"
| "install_loop run (dep # deps) w =
     (case subprocess_run run [''python3'', ''-m'', ''pip'', ''install'', ''--upgrade'', dep]
             True True w of
        (Inr rc, w1) \<Rightarrow> install_loop run deps w1
      | (Inl (CalledProcessError err), w1) \<Rightarrow>
          (case decode_stderr err of
             Inl e \<Rightarrow> (Inl e, w1)
           | Inr msg \<Rightarrow> (Inr False, w1))
      | (Inl e, w1) \<Rightarrow> (Inl e, w1))"

definition install_dependencies :: "runner \<Rightarrow> world \<Rightarrow> (exn + bool) \<times> world" where
  "install_dependencies run w =
     (let deps = get_dependencies_from_pyproject w in
      if deps = [] then (Inr True, w)
      else install_loop run deps w)"

text \<open>Lines 263-267, the common tail of \<^verbatim>\<open>get_resolve_plugin_directory\<close>.\<close>

definition pick_plugin_dir :: "world \<Rightarrow> path \<Rightarrow> path \<Rightarrow> path" where
  "pick_plugin_dir w user_plugin_dir system_plugin_dir =
     (if exists w user_plugin_dir \<or> \<not> exists w system_plugin_dir then user_plugin_dir
      else system_plugin_dir)"

text \<open>The candidate directories of lines 252, 253, 258 and 259.\<close>

definition darwin_user_plugin_dir :: "world \<Rightarrow> path" where
  "darwin_user_plugin_dir w =
     home w @ [''Library'', ''Application Support'', ''Blackmagic Design'', ''DaVinci Resolve'',
               ''Fusion'', ''Scripts'', ''Utility'']"

definition darwin_system_plugin_dir :: path where
  "darwin_system_plugin_dir =
     [''/'', ''Library'', ''Application Support'', ''Blackmagic Design'', ''DaVinci Resolve'',
      ''Fusion'', ''Scripts'', ''Utility'']"

definition windows_user_plugin_dir :: "string \<Rightarrow> path" where
  "windows_user_plugin_dir appdata =
     Path appdata @ [''Blackmagic Design'', ''DaVinci Resolve'', ''Support'', ''Fusion'',
                     ''Scripts'', ''Utility'']"

definition windows_system_plugin_dir :: "string \<Rightarrow> path" where
  "windows_system_plugin_dir programdata =
     Path programdata @ [''Blackmagic Design'', ''DaVinci Resolve'', ''Fusion'', ''Scripts'',
                         ''Utility'']"

text \<open>On Windows \<^verbatim>\<open>Path(os.getenv(...))\<close> raises \<^verbatim>\<open>TypeError\<close> when the variable is
  unset: \<^verbatim>\<open>os.getenv\<close> returns \<^verbatim>\<open>None\<close> and \<^verbatim>\<open>Path(None)\<close> is not a path.\<close>

definition get_resolve_plugin_directory :: "world \<Rightarrow> exn + path" where
  "get_resolve_plugin_directory w =
     (if system w = ''Darwin'' then
        Inr (pick_plugin_dir w (darwin_user_plugin_dir w) darwin_system_plugin_dir)
      else if system w = ''Windows'' then
        (case environ w ''APPDATA'' of
           None \<Rightarrow> Inl TypeError
         | Some appdata \<Rightarrow>
             (case environ w ''PROGRAMDATA'' of
                None \<Rightarrow> Inl TypeError
              | Some programdata \<Rightarrow>
                  Inr (pick_plugin_dir w (windows_user_plugin_dir appdata)
                         (windows_system_plugin_dir programdata))))
      else Inr (home w @ [''ClipABit'']))"

definition plugin_source :: "world \<Rightarrow> path" where
  "plugin_source w = script_dir w @ [''frontend'', ''plugin'']"

text \<open>\<^verbatim>\<open>copy_plugin_files\<close>: the call of \<^verbatim>\<open>get_resolve_plugin_directory\<close> (line 283)
  stands outside every \<^verbatim>\<open>try\<close>; \<^verbatim>\<open>os.chmod\<close> (line 315) stands inside the \<^verbatim>\<open>try\<close> of
  the copy, whose handler returns \<^verbatim>\<open>False\<close>. \<open>493\<close> is \<^verbatim>\<open>0o755\<close>.\<close>

definition copy_plugin_files :: "world \<Rightarrow> (exn + bool) \<times> world" where
  "copy_plugin_files w =
     (if \<not> exists w (plugin_source w) then (Inr False, w)
      else case get_resolve_plugin_directory w of
        Inl e \<Rightarrow> (Inl e, w)
      | Inr plugin_dir \<Rightarrow>
          (let plugin_target = plugin_dir @ [''ClipABit''] in
           case mkdir_parents plugin_dir w of
             Inl e \<Rightarrow> (Inr False, w)
           | Inr w1 \<Rightarrow>
               (case (if exists w1 plugin_target then rmtree plugin_target w1 else Inr w1) of
                  Inl e \<Rightarrow> (Inr False, w1)
                | Inr w2 \<Rightarrow>
                    (case copytree (plugin_source w) plugin_target w2 of
                       Inl e \<Rightarrow> (Inr False, w2)
                     | Inr w3 \<Rightarrow>
                         (let main_plugin = plugin_target @ [''clipabit.py''] in
                          if exists w3 main_plugin then
                            (case chmod main_plugin 493 w3 of
                               Inl e \<Rightarrow> (Inr False, w3)
                             | Inr w4 \<Rightarrow> (Inr True, w4))
                          else (Inr True, w3))))))"

definition import_check :: "string list" where
  "import_check = [''python3'', ''-c'', ''import PyQt6, requests, watchdog'']"

definition verify_installation :: "runner \<Rightarrow> world \<Rightarrow> (exn + bool) \<times> world" where
  "verify_installation run w =
     (case get_resolve_plugin_directory w of
        Inl e \<Rightarrow> (Inl e, w)
      | Inr plugin_dir \<Rightarrow>
          if \<not> exists w (plugin_dir @ [''ClipABit'', ''clipabit.py'']) then (Inr False, w)
          else
            (case subprocess_run run import_check True True w of
               (Inr rc, w1) \<Rightarrow> (Inr True, w1)
             | (Inl (CalledProcessError err), w1) \<Rightarrow> (Inr False, w1)
             | (Inl e, w1) \<Rightarrow> (Inl e, w1)))"

text \<open>\<^verbatim>\<open>main\<close>: \<^verbatim>\<open>sys.exit(n)\<close> ends the process with code \<open>n\<close>; an exception that
  leaves a stage leaves \<^verbatim>\<open>main\<close> too.\<close>

definition main :: "runner \<Rightarrow> world \<Rightarrow> outcome \<times> world" where
  "main run w =
     (if \<not> check_platform w then (Exit 1, w)
      else if \<not> check_davinci_resolve w then (Exit 1, w)
      else case check_python_installation run w of
        (Inl e, w1) \<Rightarrow> (Uncaught e, w1)
      | (Inr ok1, w1) \<Rightarrow>
          if \<not> ok1 then (Exit 1, w1)
          else (case check_pip_installation run w1 of
            (Inl e, w2) \<Rightarrow> (Uncaught e, w2)
          | (Inr ok2, w2) \<Rightarrow>
              if \<not> ok2 then (Exit 1, w2)
              else (case install_dependencies run w2 of
                (Inl e, w3) \<Rightarrow> (Uncaught e, w3)
              | (Inr ok3, w3) \<Rightarrow>
                  if \<not> ok3 then (Exit 1, w3)
                  else (case copy_plugin_files w3 of
                    (Inl e, w4) \<Rightarrow> (Uncaught e, w4)
                  | (Inr ok4, w4) \<Rightarrow>
                      if \<not> ok4 then (Exit 1, w4)
                      else (case verify_installation run w4 of
                        (Inl e, w5) \<Rightarrow> (Uncaught e, w5)
                      | (Inr ok5, w5) \<Rightarrow>
                          if \<not> ok5 then (Exit 0, w5)
                          else (Exit 0, w5))))))"

section \<open>Concrete worlds\<close>

text \<open>Small worlds on which the stages can be run: a Mac with DaVinci Resolve and the
  installer unpacked in \<^verbatim>\<open>/dl\<close>, the same with a manifest, with an earlier installation,
  and a Windows machine. A stub runner fails exactly the listed commands.\<close>

definition no_denials :: "fs_call \<Rightarrow> bool" where
  "no_denials c = False"

definition stub_run :: "string list list \<Rightarrow> runner" where
  "stub_run failing argv w =
     (if argv \<in> set failing then Run_completed 1 (Utf8 ''failed'')
      else Run_completed 0 (Utf8 []), w)"

definition mac_fs :: "path \<rightharpoonup> node" where
  "mac_fs = map_of
     [([''/''], Dir),
      ([''/'', ''Applications''], Dir),
      ([''/'', ''Applications'', ''DaVinci Resolve''], Dir),
      ([''/'', ''Applications'', ''DaVinci Resolve'', ''DaVinci Resolve.app''], Dir),
      ([''/'', ''dl''], Dir),
      ([''/'', ''dl'', ''frontend''], Dir),
      ([''/'', ''dl'', ''frontend'', ''plugin''], Dir),
      ([''/'', ''dl'', ''frontend'', ''plugin'', ''clipabit.py''], File ''import ui'' 420),
      ([''/'', ''Users''], Dir),
      ([''/'', ''Users'', ''u''], Dir)]"

definition mac_world :: world where
  "mac_world =
     \<lparr>system = ''Darwin'', home = [''/'', ''Users'', ''u''], script_dir = [''/'', ''dl''],
      environ = Map.empty, tomllib = None, fs = mac_fs, denied = no_denials, calls = []\<rparr>"

definition parse_as :: "pyproject \<Rightarrow> string \<Rightarrow> exn + pyproject" where
  "parse_as doc bytes = Inr doc"

definition parse_fails :: "string \<Rightarrow> exn + pyproject" where
  "parse_fails bytes = Inl TOMLDecodeError"

definition declares :: "string list \<Rightarrow> pyproject" where
  "declares deps = Pyproject (Some (Project_table (Some deps)))"

definition manifest_world :: "(string \<Rightarrow> exn + pyproject) option \<Rightarrow> world" where
  "manifest_world load =
     mac_world\<lparr>tomllib := load,
       fs := mac_fs([''/'', ''dl'', ''frontend'', ''plugin'', ''pyproject.toml'']
                      \<mapsto> File ''[project]'' 420)\<rparr>"

definition windows_world :: "(string \<rightharpoonup> string) \<Rightarrow> world" where
  "windows_world env =
     \<lparr>system = ''Windows'', home = [''C:'', ''Users'', ''u''], script_dir = [''C:'', ''dl''],
      environ = env, tomllib = None,
      fs = map_of
        [([''C:''], Dir),
         ([''C:'', ''dl''], Dir),
         ([''C:'', ''dl'', ''frontend''], Dir),
         ([''C:'', ''dl'', ''frontend'', ''plugin''], Dir),
         ([''C:'', ''dl'', ''frontend'', ''plugin'', ''clipabit.py''], File ''import ui'' 420),
         ([''D:Shared''], Dir),
         (windows_system_plugin_dir ''D:Shared'', Dir)],
      denied = no_denials, calls = []\<rparr>"

text \<open>What is at a path, permission bits aside.\<close>

datatype entry = Absent | Directory | Regular string

definition entry_at :: "world \<Rightarrow> path \<Rightarrow> entry" where
  "entry_at w p =
     (case fs w p of None \<Rightarrow> Absent | Some Dir \<Rightarrow> Directory | Some (File d m) \<Rightarrow> Regular d)"

text \<open>A Mac on which an earlier version of the plugin is installed in the user-scope
  directory, with a file the new version no longer has, and whose manifest declares a
  package the verifier does not know.\<close>

definition prior_install_world :: world where
  "prior_install_world =
     mac_world\<lparr>tomllib := Some (parse_as (declares [''numpy>=1.26''])),
       fs := mac_fs ++ map_of
         (map (\<lambda>p. (p, Dir)) (tl (prefixes (darwin_user_plugin_dir mac_world))) @
          [(darwin_user_plugin_dir mac_world @ [''ClipABit''], Dir),
           (darwin_user_plugin_dir mac_world @ [''ClipABit'', ''old.py''], File ''stale'' 420),
           (darwin_user_plugin_dir mac_world @ [''ClipABit'', ''clipabit.py''],
              File ''import old_ui'' 493),
           ([''/'', ''dl'', ''frontend'', ''plugin'', ''pyproject.toml''],
              File ''[project]'' 420)])\<rparr>"

text \<open>The Mac on which the operating system refuses to change the permission bits of
  the deployed entry point.\<close>

definition chmod_denied_world :: world where
  "chmod_denied_world =
     mac_world\<lparr>denied :=
       (\<lambda>c. c = Chmod (darwin_user_plugin_dir mac_world @ [''ClipABit'', ''clipabit.py'']))\<rparr>"

text \<open>A package manager that installs a package by writing it under
  \<^verbatim>\<open>site-packages\<close>, and that fails on the package \<^verbatim>\<open>b\<close> with a standard error that
  is not UTF-8.\<close>

definition flaky_pip :: runner where
  "flaky_pip argv w =
     (if last argv = ''b'' then (Run_completed 1 Invalid_utf8, w)
      else (Run_completed 0 (Utf8 []),
            w\<lparr>fs := (fs w)([''site-packages'', last argv] \<mapsto> File [] 420)\<rparr>))"

definition abc_world :: world where
  "abc_world = manifest_world (Some (parse_as (declares [''a'', ''b'', ''c''])))"


section \<open>Evaluation rules\<close>

lemmas world_simps =
  mac_world_def mac_fs_def manifest_world_def windows_world_def no_denials_def
  exists_def pyproject_path_def plugin_source_def
  darwin_user_plugin_dir_def darwin_system_plugin_dir_def
  windows_user_plugin_dir_def windows_system_plugin_dir_def Path_def

section \<open>Directory resolution\<close>




text \<open>
  Claim C10. On Windows, when \<^verbatim>\<open>APPDATA\<close> or \<^verbatim>\<open>PROGRAMDATA\<close> is unset,
  \<^verbatim>\<open>get_resolve_plugin_directory\<close> raises \<^verbatim>\<open>TypeError\<close>. \<^verbatim>\<open>copy_plugin_files\<close> calls
  it outside its handlers: once the plugin source directory has been found, the
  exception leaves \<^verbatim>\<open>copy_plugin_files\<close>, which neither returns \<^verbatim>\<open>False\<close> nor
  completes, and the world is as it was. The witness is a world in which this happens.
\<close>

theorem windows_unset_environment_escapes:
  assumes "system w = ''Windows''"
    and "environ w ''APPDATA'' = None \<or> environ w ''PROGRAMDATA'' = None"
  shows "get_resolve_plugin_directory w = Inl TypeError
         \<and> (exists w (plugin_source w) \<longrightarrow> copy_plugin_files w = (Inl TypeError, w))"
proof -
  from assms have "get_resolve_plugin_directory w = Inl TypeError"
    by (auto simp add: get_resolve_plugin_directory_def split: option.splits)
  then show ?thesis
    by (simp add: copy_plugin_files_def)
qed

theorem windows_unset_environment_escapes_witness:
  "system (windows_world [''PROGRAMDATA'' \<mapsto> ''D:Shared'']) = ''Windows''
   \<and> environ (windows_world [''PROGRAMDATA'' \<mapsto> ''D:Shared'']) ''APPDATA'' = None
   \<and> exists (windows_world [''PROGRAMDATA'' \<mapsto> ''D:Shared''])
        (plugin_source (windows_world [''PROGRAMDATA'' \<mapsto> ''D:Shared'']))
   \<and> get_resolve_plugin_directory (windows_world [''PROGRAMDATA'' \<mapsto> ''D:Shared'']) = Inl TypeError
   \<and> copy_plugin_files (windows_world [''PROGRAMDATA'' \<mapsto> ''D:Shared''])
       = (Inl TypeError, windows_world [''PROGRAMDATA'' \<mapsto> ''D:Shared''])"
  using windows_unset_environment_escapes [of "windows_world [''PROGRAMDATA'' \<mapsto> ''D:Shared'']"]
  by (simp add: world_simps)

section \<open>Dependency resolution\<close>

text \<open>
  Claim C4. \<^verbatim>\<open>get_dependencies_from_pyproject\<close> returns the hardcoded list of three
  entries when the manifest is missing, when no TOML parser could be imported, and when
  opening or parsing the manifest raises. When the manifest parses and declares an empty
  list of dependencies, the result is the empty list and not the hardcoded one.
\<close>

theorem get_dependencies_fallback:
  "fallback_dependencies = [''pyqt6>=6.10.0'', ''requests>=2.31.0'', ''watchdog>=3.0.0'']
   \<and> (\<not> exists w (pyproject_path w) \<longrightarrow>
        get_dependencies_from_pyproject w = fallback_dependencies)
   \<and> (tomllib w = None \<longrightarrow> get_dependencies_from_pyproject w = fallback_dependencies)
   \<and> (tomllib w = Some load \<and> open_rb w (pyproject_path w) = Inl e \<longrightarrow>
        get_dependencies_from_pyproject w = fallback_dependencies)
   \<and> (tomllib w = Some load \<and> open_rb w (pyproject_path w) = Inr bytes \<and> load bytes = Inl e \<longrightarrow>
        get_dependencies_from_pyproject w = fallback_dependencies)
   \<and> (exists w (pyproject_path w) \<and> tomllib w = Some load
        \<and> open_rb w (pyproject_path w) = Inr bytes
        \<and> load bytes = Inr (Pyproject (Some (Project_table (Some [])))) \<longrightarrow>
        get_dependencies_from_pyproject w = [])"
  by (simp add: get_dependencies_from_pyproject_def fallback_dependencies_def)

theorem get_dependencies_fallback_witness:
  "get_dependencies_from_pyproject mac_world = fallback_dependencies
   \<and> get_dependencies_from_pyproject (manifest_world None) = fallback_dependencies
   \<and> get_dependencies_from_pyproject
        ((manifest_world (Some (parse_as (declares []))))
           \<lparr>denied := (\<lambda>c. c = Open [''/'', ''dl'', ''frontend'', ''plugin'', ''pyproject.toml''])\<rparr>)
       = fallback_dependencies
   \<and> get_dependencies_from_pyproject (manifest_world (Some parse_fails)) = fallback_dependencies
   \<and> get_dependencies_from_pyproject (manifest_world (Some (parse_as (declares [])))) = []
   \<and> fallback_dependencies \<noteq> []"
proof -
  let ?d = "(manifest_world (Some (parse_as (declares []))))
           \<lparr>denied := (\<lambda>c. c = Open [''/'', ''dl'', ''frontend'', ''plugin'', ''pyproject.toml''])\<rparr>"
  have 1: "get_dependencies_from_pyproject mac_world = fallback_dependencies"
    using get_dependencies_fallback [of mac_world]
    by (simp add: world_simps)
  have 2: "get_dependencies_from_pyproject (manifest_world None) = fallback_dependencies"
    using get_dependencies_fallback [of "manifest_world None"]
    by (simp add: world_simps)
  have 3: "get_dependencies_from_pyproject ?d = fallback_dependencies"
    using get_dependencies_fallback [where w = ?d and load = "parse_as (declares [])" and e = PermissionError]
    by (simp add: world_simps open_rb_def)
  have 4: "get_dependencies_from_pyproject (manifest_world (Some parse_fails))
             = fallback_dependencies"
    using get_dependencies_fallback
            [where w = "manifest_world (Some parse_fails)" and load = parse_fails
               and bytes = "''[project]''" and e = TOMLDecodeError]
    by (simp add: world_simps open_rb_def parse_fails_def)
  have 5: "get_dependencies_from_pyproject (manifest_world (Some (parse_as (declares [])))) = []"
    using get_dependencies_fallback
            [where w = "manifest_world (Some (parse_as (declares [])))"
               and load = "parse_as (declares [])" and bytes = "''[project]''"]
    by (simp add: world_simps open_rb_def parse_as_def declares_def)
  have 6: "fallback_dependencies \<noteq> []"
    by (subst get_dependencies_fallback [where w = mac_world, THEN conjunct1]) simp
  from 1 2 3 4 5 6 show ?thesis by blast
qed

section \<open>Dependency installation\<close>

text \<open>
  Claim C8. When the resolved dependency list is empty, \<^verbatim>\<open>install_dependencies\<close>
  returns \<^verbatim>\<open>True\<close> and the world is untouched: the runner is never applied and the log
  of subprocess calls is as before.
\<close>

theorem install_dependencies_empty:
  assumes "get_dependencies_from_pyproject w = []"
  shows "install_dependencies run w = (Inr True, w)"
  using assms by (simp add: install_dependencies_def)

theorem install_dependencies_empty_witness:
  "get_dependencies_from_pyproject (manifest_world (Some (parse_as (declares [])))) = []
   \<and> install_dependencies (stub_run []) (manifest_world (Some (parse_as (declares []))))
       = (Inr True, manifest_world (Some (parse_as (declares []))))"
proof -
  have h: "get_dependencies_from_pyproject (manifest_world (Some (parse_as (declares [])))) = []"
    by (simp add: get_dependencies_from_pyproject_def world_simps open_rb_def parse_as_def
          declares_def)
  from h install_dependencies_empty [OF h, of "stub_run []"] show ?thesis by simp
qed

section \<open>The pipeline\<close>

text \<open>
  Claim C7. On a platform other than \<^verbatim>\<open>Darwin\<close> and \<^verbatim>\<open>Windows\<close>,
  \<^verbatim>\<open>check_platform\<close> returns \<^verbatim>\<open>False\<close> and \<^verbatim>\<open>main\<close> ends with exit code 1 in the
  world it started in: no file has been touched and no subprocess has been run.
\<close>

theorem unsupported_platform_aborts:
  assumes "system w \<noteq> ''Darwin''" and "system w \<noteq> ''Windows''"
  shows "\<not> check_platform w \<and> main run w = (Exit 1, w)"
  using assms by (simp add: check_platform_def main_def)

theorem unsupported_platform_aborts_witness:
  "system (mac_world\<lparr>system := ''Linux''\<rparr>) \<noteq> ''Darwin''
   \<and> system (mac_world\<lparr>system := ''Linux''\<rparr>) \<noteq> ''Windows''
   \<and> \<not> check_platform (mac_world\<lparr>system := ''Linux''\<rparr>)
   \<and> main (stub_run []) (mac_world\<lparr>system := ''Linux''\<rparr>)
       = (Exit 1, mac_world\<lparr>system := ''Linux''\<rparr>)"
  using unsupported_platform_aborts [of "mac_world\<lparr>system := ''Linux''\<rparr>" "stub_run []"]
  by simp

text \<open>
  Claim C1. Whichever of \<^verbatim>\<open>check_platform\<close>, \<^verbatim>\<open>check_davinci_resolve\<close>,
  \<^verbatim>\<open>check_python_installation\<close>, \<^verbatim>\<open>check_pip_installation\<close>,
  \<^verbatim>\<open>install_dependencies\<close> and \<^verbatim>\<open>copy_plugin_files\<close> is the first to return
  \<^verbatim>\<open>False\<close>, \<^verbatim>\<open>main\<close> ends with exit code 1 in the world that stage left behind, so
  no later stage has run. When all six return \<^verbatim>\<open>True\<close> and \<^verbatim>\<open>verify_installation\<close>
  returns \<^verbatim>\<open>False\<close>, \<^verbatim>\<open>main\<close> ends with exit code 0. The witness runs one world
  into each of the seven branches.
\<close>

theorem main_gates:
  fixes run :: runner and w w1 w2 w3 w4 w5 :: world
  defines "w1 \<equiv> snd (check_python_installation run w)"
    and "w2 \<equiv> snd (check_pip_installation run w1)"
    and "w3 \<equiv> snd (install_dependencies run w2)"
    and "w4 \<equiv> snd (copy_plugin_files w3)"
    and "w5 \<equiv> snd (verify_installation run w4)"
  shows
    "(\<not> check_platform w \<longrightarrow> main run w = (Exit 1, w))
     \<and> (check_platform w \<and> \<not> check_davinci_resolve w \<longrightarrow> main run w = (Exit 1, w))
     \<and> (check_platform w \<and> check_davinci_resolve w
          \<and> fst (check_python_installation run w) = Inr False \<longrightarrow>
        main run w = (Exit 1, w1))
     \<and> (check_platform w \<and> check_davinci_resolve w
          \<and> fst (check_python_installation run w) = Inr True
          \<and> fst (check_pip_installation run w1) = Inr False \<longrightarrow>
        main run w = (Exit 1, w2))
     \<and> (check_platform w \<and> check_davinci_resolve w
          \<and> fst (check_python_installation run w) = Inr True
          \<and> fst (check_pip_installation run w1) = Inr True
          \<and> fst (install_dependencies run w2) = Inr False \<longrightarrow>
        main run w = (Exit 1, w3))
     \<and> (check_platform w \<and> check_davinci_resolve w
          \<and> fst (check_python_installation run w) = Inr True
          \<and> fst (check_pip_installation run w1) = Inr True
          \<and> fst (install_dependencies run w2) = Inr True
          \<and> fst (copy_plugin_files w3) = Inr False \<longrightarrow>
        main run w = (Exit 1, w4))
     \<and> (check_platform w \<and> check_davinci_resolve w
          \<and> fst (check_python_installation run w) = Inr True
          \<and> fst (check_pip_installation run w1) = Inr True
          \<and> fst (install_dependencies run w2) = Inr True
          \<and> fst (copy_plugin_files w3) = Inr True
          \<and> fst (verify_installation run w4) = Inr False \<longrightarrow>
        main run w = (Exit 0, w5))"
proof -
  obtain r1 where p1: "check_python_installation run w = (r1, w1)"
    unfolding w1_def by (cases "check_python_installation run w") simp
  obtain r2 where p2: "check_pip_installation run w1 = (r2, w2)"
    unfolding w2_def by (cases "check_pip_installation run w1") simp
  obtain r3 where p3: "install_dependencies run w2 = (r3, w3)"
    unfolding w3_def by (cases "install_dependencies run w2") simp
  obtain r4 where p4: "copy_plugin_files w3 = (r4, w4)"
    unfolding w4_def by (cases "copy_plugin_files w3") simp
  obtain r5 where p5: "verify_installation run w4 = (r5, w5)"
    unfolding w5_def by (cases "verify_installation run w4") simp
  show ?thesis
    by (simp add: main_def p1 p2 p3 p4 p5)
qed

theorem main_gates_witness:
  "fst (main (stub_run []) (mac_world\<lparr>system := ''Linux''\<rparr>)) = Exit 1
   \<and> fst (main (stub_run []) (mac_world\<lparr>fs := Map.empty\<rparr>)) = Exit 1
   \<and> fst (main (stub_run [[''python3'', ''--version'']]) mac_world) = Exit 1
   \<and> fst (main (stub_run [[''python3'', ''-m'', ''pip'', ''--version''],
                           [''python3'', ''-m'', ''ensurepip'', ''--default-pip'']]) mac_world)
       = Exit 1
   \<and> fst (main (stub_run [[''python3'', ''-m'', ''pip'', ''install'', ''--upgrade'',
                            ''requests>=2.31.0'']]) mac_world) = Exit 1
   \<and> fst (main (stub_run []) (mac_world\<lparr>script_dir := [''/'', ''nowhere'']\<rparr>)) = Exit 1
   \<and> fst (main (stub_run [[''python3'', ''-c'', ''import PyQt6, requests, watchdog'']])
             mac_world) = Exit 0"
proof -
  let ?ok = "stub_run []"
  let ?no_python = "stub_run [[''python3'', ''--version'']]"
  let ?no_pip = "stub_run [[''python3'', ''-m'', ''pip'', ''--version''],
                           [''python3'', ''-m'', ''ensurepip'', ''--default-pip'']]"
  let ?no_requests = "stub_run [[''python3'', ''-m'', ''pip'', ''install'', ''--upgrade'',
                                 ''requests>=2.31.0'']]"
  let ?no_import = "stub_run [[''python3'', ''-c'', ''import PyQt6, requests, watchdog'']]"
  let ?linux = "mac_world\<lparr>system := ''Linux''\<rparr>"
  let ?bare = "mac_world\<lparr>fs := Map.empty\<rparr>"
  let ?unpacked = "mac_world\<lparr>script_dir := [''/'', ''nowhere'']\<rparr>"
  have h1: "\<not> check_platform ?linux"
    by code_simp
  have h2: "check_platform ?bare \<and> \<not> check_davinci_resolve ?bare"
    by code_simp
  have h3: "check_platform mac_world \<and> check_davinci_resolve mac_world
      \<and> fst (check_python_installation ?no_python mac_world) = Inr False"
    by code_simp
  have h4: "check_platform mac_world \<and> check_davinci_resolve mac_world
      \<and> fst (check_python_installation ?no_pip mac_world) = Inr True
      \<and> fst (check_pip_installation ?no_pip
                (snd (check_python_installation ?no_pip mac_world))) = Inr False"
    by code_simp
  have h5: "check_platform mac_world \<and> check_davinci_resolve mac_world
      \<and> fst (check_python_installation ?no_requests mac_world) = Inr True
      \<and> fst (check_pip_installation ?no_requests
                (snd (check_python_installation ?no_requests mac_world))) = Inr True
      \<and> fst (install_dependencies ?no_requests
                (snd (check_pip_installation ?no_requests
                   (snd (check_python_installation ?no_requests mac_world))))) = Inr False"
    by code_simp
  have h6: "check_platform ?unpacked \<and> check_davinci_resolve ?unpacked
      \<and> fst (check_python_installation ?ok ?unpacked) = Inr True
      \<and> fst (check_pip_installation ?ok
                (snd (check_python_installation ?ok ?unpacked))) = Inr True
      \<and> fst (install_dependencies ?ok
                (snd (check_pip_installation ?ok
                   (snd (check_python_installation ?ok ?unpacked))))) = Inr True
      \<and> fst (copy_plugin_files
                (snd (install_dependencies ?ok
                   (snd (check_pip_installation ?ok
                      (snd (check_python_installation ?ok ?unpacked))))))) = Inr False"
    by code_simp
  have h7: "check_platform mac_world \<and> check_davinci_resolve mac_world
      \<and> fst (check_python_installation ?no_import mac_world) = Inr True
      \<and> fst (check_pip_installation ?no_import
                (snd (check_python_installation ?no_import mac_world))) = Inr True
      \<and> fst (install_dependencies ?no_import
                (snd (check_pip_installation ?no_import
                   (snd (check_python_installation ?no_import mac_world))))) = Inr True
      \<and> fst (copy_plugin_files
                (snd (install_dependencies ?no_import
                   (snd (check_pip_installation ?no_import
                      (snd (check_python_installation ?no_import mac_world))))))) = Inr True
      \<and> fst (verify_installation ?no_import
                (snd (copy_plugin_files
                   (snd (install_dependencies ?no_import
                      (snd (check_pip_installation ?no_import
                         (snd (check_python_installation ?no_import mac_world))))))))) = Inr False"
    by code_simp
  note g = main_gates
  have 1: "fst (main ?ok ?linux) = Exit 1"
    using g [of ?linux ?ok, THEN conjunct1, THEN mp, OF h1] by simp
  have 2: "fst (main ?ok ?bare) = Exit 1"
    using g [of ?bare ?ok, THEN conjunct2, THEN conjunct1, THEN mp, OF h2] by simp
  have 3: "fst (main ?no_python mac_world) = Exit 1"
    using g [of mac_world ?no_python, THEN conjunct2, THEN conjunct2, THEN conjunct1,
             THEN mp, OF h3] by simp
  have 4: "fst (main ?no_pip mac_world) = Exit 1"
    using g [of mac_world ?no_pip, THEN conjunct2, THEN conjunct2, THEN conjunct2,
             THEN conjunct1, THEN mp, OF h4] by simp
  have 5: "fst (main ?no_requests mac_world) = Exit 1"
    using g [of mac_world ?no_requests, THEN conjunct2, THEN conjunct2, THEN conjunct2,
             THEN conjunct2, THEN conjunct1, THEN mp, OF h5] by simp
  have 6: "fst (main ?ok ?unpacked) = Exit 1"
    using g [of ?unpacked ?ok, THEN conjunct2, THEN conjunct2, THEN conjunct2,
             THEN conjunct2, THEN conjunct2, THEN conjunct1, THEN mp, OF h6] by simp
  have 7: "fst (main ?no_import mac_world) = Exit 0"
    using g [of mac_world ?no_import, THEN conjunct2, THEN conjunct2, THEN conjunct2,
             THEN conjunct2, THEN conjunct2, THEN conjunct2, THEN mp, OF h7] by simp
  from 1 2 3 4 5 6 7 show ?thesis by blast
qed

section \<open>Deployment\<close>

text \<open>What the filesystem calls leave behind when they succeed.\<close>

lemma mkdir_parents_fs:
  assumes "mkdir_parents p w = Inr w1"
  shows "fs w1 q = (if q \<noteq> [] \<and> prefix q p \<and> fs w q = None then Some Dir else fs w q)"
  using assms by (auto simp add: mkdir_parents_def split: if_splits)

lemma rmtree_fs:
  assumes "rmtree p w = Inr w2"
  shows "fs w p = Some Dir" and "fs w2 q = (if prefix p q then None else fs w q)"
  using assms by (auto simp add: rmtree_def split: if_splits option.splits node.splits)

lemma copytree_fs:
  assumes "copytree src dst w = Inr w3"
  shows "fs w src = Some Dir" and "\<not> prefix src dst"
    and "fs w3 (dst @ rest) =
           (case fs w (src @ rest) of Some n \<Rightarrow> Some n | None \<Rightarrow> fs w (dst @ rest))"
  using assms by (auto simp add: copytree_def split: if_splits option.splits node.splits)

lemma chmod_fs:
  assumes "chmod p m w = Inr w4"
  shows "fs w4 q = (if q = p then map_option (set_mode m) (fs w p) else fs w q)"
  using assms by (auto simp add: chmod_def split: if_splits option.splits)

lemma copy_plugin_files_stages:
  assumes "copy_plugin_files w = (Inr True, w')"
    and "get_resolve_plugin_directory w = Inr plugin_dir"
  obtains w1 w2 w3 where
    "exists w (plugin_source w)"
    "mkdir_parents plugin_dir w = Inr w1"
    "(if exists w1 (plugin_dir @ [''ClipABit'']) then rmtree (plugin_dir @ [''ClipABit'']) w1
      else Inr w1) = Inr w2"
    "copytree (plugin_source w) (plugin_dir @ [''ClipABit'']) w2 = Inr w3"
    "(if exists w3 (plugin_dir @ [''ClipABit'', ''clipabit.py''])
      then chmod (plugin_dir @ [''ClipABit'', ''clipabit.py'']) 493 w3 else Inr w3) = Inr w'"
  using assms
  by (auto simp add: copy_plugin_files_def Let_def split: if_splits sum.splits)

text \<open>
  Claim C3. When an installation already exists at the plugin directory's
  \<^verbatim>\<open>ClipABit\<close> subdirectory and \<^verbatim>\<open>copy_plugin_files\<close> returns \<^verbatim>\<open>True\<close>, then at every
  path below the target there is exactly what the source tree has at the same relative
  path: the same directories, the same files with the same bytes, and nothing where the
  source has nothing, so no file of the earlier installation survives. The permission
  bits are those of the source as well, except for the entry point \<^verbatim>\<open>clipabit.py\<close>,
  which the script sets to \<^verbatim>\<open>0o755\<close>.
\<close>

theorem copy_plugin_files_replaces:
  assumes res: "get_resolve_plugin_directory w = Inr plugin_dir"
    and prior: "exists w (plugin_dir @ [''ClipABit''])"
    and ok: "copy_plugin_files w = (Inr True, w')"
  shows "entry_at w' (plugin_dir @ [''ClipABit''] @ rest) = entry_at w (plugin_source w @ rest)
         \<and> fs w' (plugin_dir @ [''ClipABit''] @ rest) =
             (if rest = [''clipabit.py'']
              then map_option (set_mode 493) (fs w (plugin_source w @ rest))
              else fs w (plugin_source w @ rest))"
proof -
  let ?T = "plugin_dir @ [''ClipABit'']"
  let ?S = "plugin_source w"
  from ok res obtain w1 w2 w3 where
    "exists w ?S" and
    m: "mkdir_parents plugin_dir w = Inr w1" and
    r: "(if exists w1 ?T then rmtree ?T w1 else Inr w1) = Inr w2" and
    c: "copytree ?S ?T w2 = Inr w3" and
    h: "(if exists w3 (plugin_dir @ [''ClipABit'', ''clipabit.py''])
         then chmod (plugin_dir @ [''ClipABit'', ''clipabit.py'']) 493 w3 else Inr w3) = Inr w'"
    by (rule copy_plugin_files_stages)
  have w1T: "fs w1 ?T = fs w ?T"
    using prior by (simp add: mkdir_parents_fs [OF m] exists_def)
  with prior have "exists w1 ?T"
    by (simp add: exists_def)
  with r have rm: "rmtree ?T w1 = Inr w2"
    by simp
  have w2: "fs w2 q = (if prefix ?T q then None else fs w1 q)" for q
    by (rule rmtree_fs(2) [OF rm])
  have S_dir: "fs w2 ?S = Some Dir" and not_ST: "\<not> prefix ?S ?T"
    using copytree_fs(1,2) [OF c] by simp_all
  have not_TS: "\<not> prefix ?T ?S"
    using S_dir w2 [of ?S] by (auto split: if_splits)
  have disjoint: "\<not> prefix ?T (?S @ rest)" for rest
  proof
    assume "prefix ?T (?S @ rest)"
    moreover have "prefix ?S (?S @ rest)" by simp
    ultimately have "prefix ?T ?S \<or> prefix ?S ?T"
      by (rule prefix_same_cases)
    with not_TS not_ST show False by blast
  qed
  have not_anc: "\<not> prefix (?S @ rest) plugin_dir" for rest
  proof
    assume "prefix (?S @ rest) plugin_dir"
    then have "prefix ?S ?T"
      by (meson append_prefixD prefix_order.trans prefixI)
    with not_ST show False by blast
  qed
  have src_same: "fs w2 (?S @ rest) = fs w (?S @ rest)" for rest
    using disjoint [of rest] not_anc [of rest]
    by (simp add: w2 mkdir_parents_fs [OF m])
  have below_gone: "fs w2 (?T @ rest) = None" for rest
    by (simp add: w2)
  have w3: "fs w3 (?T @ rest) = fs w (?S @ rest)" for rest
    using copytree_fs(3) [OF c, of rest] below_gone [of rest]
    by (simp add: src_same split: option.splits)
  have w': "fs w' q =
      (if q = plugin_dir @ [''ClipABit'', ''clipabit.py'']
       then map_option (set_mode 493) (fs w3 q) else fs w3 q)" for q
  proof (cases "exists w3 (plugin_dir @ [''ClipABit'', ''clipabit.py''])")
    case True
    with h have "chmod (plugin_dir @ [''ClipABit'', ''clipabit.py'']) 493 w3 = Inr w'"
      by simp
    then show ?thesis
      by (simp add: chmod_fs)
  next
    case False
    with h have "w' = w3" by simp
    with False show ?thesis
      by (auto simp add: exists_def)
  qed
  have exact: "fs w' (?T @ rest) =
      (if rest = [''clipabit.py'']
       then map_option (set_mode 493) (fs w (?S @ rest))
       else fs w (?S @ rest))"
    using w3 [of rest] w3 [of "[''clipabit.py'']"] by (simp add: w')
  have "entry_at w' (?T @ rest) = entry_at w (?S @ rest)"
  proof (cases "fs w (?S @ rest)")
    case None
    with exact show ?thesis by (auto simp add: entry_at_def)
  next
    case (Some n)
    with exact show ?thesis
      by (cases n) (auto simp add: entry_at_def)
  qed
  with exact show ?thesis by simp
qed

theorem copy_plugin_files_replaces_witness:
  "entry_at prior_install_world
      (darwin_user_plugin_dir mac_world @ [''ClipABit''] @ [''old.py'']) = Regular ''stale''
   \<and> entry_at (snd (copy_plugin_files prior_install_world))
      (darwin_user_plugin_dir mac_world @ [''ClipABit''] @ [''old.py'']) = Absent
   \<and> fs (snd (copy_plugin_files prior_install_world))
      (darwin_user_plugin_dir mac_world @ [''ClipABit''] @ [''clipabit.py''])
       = Some (File ''import ui'' 493)"
proof -
  let ?w = prior_install_world
  let ?d = "darwin_user_plugin_dir mac_world"
  have res: "get_resolve_plugin_directory ?w = Inr ?d"
    by code_simp
  have prior: "exists ?w (?d @ [''ClipABit''])"
    by code_simp
  have "fst (copy_plugin_files ?w) = Inr True"
    by code_simp
  then have ok: "copy_plugin_files ?w = (Inr True, snd (copy_plugin_files ?w))"
    by (metis prod.collapse)
  have before: "entry_at ?w (?d @ [''ClipABit''] @ [''old.py'']) = Regular ''stale''"
    by code_simp
  have src1: "entry_at ?w (plugin_source ?w @ [''old.py'']) = Absent"
    by code_simp
  have src2: "fs ?w (plugin_source ?w @ [''clipabit.py'']) = Some (File ''import ui'' 420)"
    by code_simp
  from copy_plugin_files_replaces [OF res prior ok, of "[''old.py'']"] src1
  have 1: "entry_at (snd (copy_plugin_files ?w)) (?d @ [''ClipABit''] @ [''old.py'']) = Absent"
    by simp
  from copy_plugin_files_replaces [OF res prior ok, of "[''clipabit.py'']"] src2
  have 2: "fs (snd (copy_plugin_files ?w)) (?d @ [''ClipABit''] @ [''clipabit.py''])
             = Some (File ''import ui'' 493)"
    by simp
  from before 1 2 show ?thesis by blast
qed

text \<open>Refusing one more call changes nothing in a filesystem call that is not that
  one, and the filesystem calls leave the refusals as they are.\<close>

lemma get_resolve_plugin_directory_denied:
  "get_resolve_plugin_directory (w\<lparr>denied := d\<rparr>) = get_resolve_plugin_directory w"
  by (simp add: get_resolve_plugin_directory_def pick_plugin_dir_def exists_def
        darwin_user_plugin_dir_def split: option.splits)

lemma mkdir_parents_denied:
  assumes "d (Mkdir p) = denied v (Mkdir p)"
  shows "mkdir_parents p (v\<lparr>denied := d\<rparr>) =
           (case mkdir_parents p v of Inl e \<Rightarrow> Inl e | Inr v' \<Rightarrow> Inr (v'\<lparr>denied := d\<rparr>))"
  using assms by (simp add: mkdir_parents_def cong: if_cong)

lemma rmtree_denied:
  assumes "d (Rmtree p) = denied v (Rmtree p)"
  shows "rmtree p (v\<lparr>denied := d\<rparr>) =
           (case rmtree p v of Inl e \<Rightarrow> Inl e | Inr v' \<Rightarrow> Inr (v'\<lparr>denied := d\<rparr>))"
  using assms
  by (simp add: rmtree_def split: option.splits node.splits cong: if_cong)

lemma copytree_denied:
  assumes "d (Copytree src dst) = denied v (Copytree src dst)"
  shows "copytree src dst (v\<lparr>denied := d\<rparr>) =
           (case copytree src dst v of Inl e \<Rightarrow> Inl e | Inr v' \<Rightarrow> Inr (v'\<lparr>denied := d\<rparr>))"
  using assms
  by (auto simp add: copytree_def split: option.splits node.splits
        cong: if_cong option.case_cong)

lemma mkdir_parents_keeps_denied:
  "mkdir_parents p v = Inr v' \<Longrightarrow> denied v' = denied v"
  by (auto simp add: mkdir_parents_def split: if_splits)

lemma rmtree_keeps_denied:
  "rmtree p v = Inr v' \<Longrightarrow> denied v' = denied v"
  by (auto simp add: rmtree_def split: if_splits option.splits node.splits)

lemma copytree_keeps_denied:
  "copytree src dst v = Inr v' \<Longrightarrow> denied v' = denied v"
  by (auto simp add: copytree_def split: if_splits option.splits node.splits)

lemma entry_at_set_mode:
  "fs v p = Some n \<Longrightarrow> entry_at (v\<lparr>fs := (fs v)(p \<mapsto> set_mode m n)\<rparr>) q = entry_at v q"
  by (cases n) (auto simp add: entry_at_def)

text \<open>
  Claim C6, as stated: a failure to set the executable permission on the deployed entry
  point is not checked, and \<^verbatim>\<open>copy_plugin_files\<close> still returns \<^verbatim>\<open>True\<close>. It does not:
  \<^verbatim>\<open>os.chmod\<close> reports failure by raising, and the call stands inside the \<^verbatim>\<open>try\<close>
  block of the copy. On the Mac where that one call is refused, the entry point is
  deployed and the result is \<^verbatim>\<open>False\<close>.
\<close>

theorem chmod_failure_counterexample:
  "entry_at chmod_denied_world
      (darwin_user_plugin_dir mac_world @ [''ClipABit'', ''clipabit.py'']) = Absent
   \<and> entry_at (snd (copy_plugin_files chmod_denied_world))
      (darwin_user_plugin_dir mac_world @ [''ClipABit'', ''clipabit.py'']) = Regular ''import ui''
   \<and> denied chmod_denied_world
        (Chmod (darwin_user_plugin_dir mac_world @ [''ClipABit'', ''clipabit.py'']))
   \<and> fst (copy_plugin_files chmod_denied_world) \<noteq> Inr True
   \<and> fst (copy_plugin_files chmod_denied_world) = Inr False"
  by code_simp

text \<open>
  Claim C6, amended. Take a world in which \<^verbatim>\<open>copy_plugin_files\<close> returns \<^verbatim>\<open>True\<close>
  and deploys the entry point when \<^verbatim>\<open>os.chmod\<close> on it is permitted. When that call is
  refused instead, the handler of the copy catches the exception and
  \<^verbatim>\<open>copy_plugin_files\<close> returns \<^verbatim>\<open>False\<close>. The files are deployed all the same: at
  every path other than the entry point the filesystem is the one of the permitted run,
  permission bits included, and the permitted run's entry point is the refused run's
  with its permission bits set to \<^verbatim>\<open>0o755\<close>. When the source tree has the entry point,
  the refused run leaves it as copied, with the bytes and the permission bits of the
  source.
\<close>

theorem chmod_failure_returns_false:
  assumes res: "get_resolve_plugin_directory w = Inr plugin_dir"
    and ok: "copy_plugin_files
           (w\<lparr>denied := (denied w)(Chmod (plugin_dir @ [''ClipABit'', ''clipabit.py'']) := False)\<rparr>)
         = (Inr True, w')"
    and deployed: "exists w' (plugin_dir @ [''ClipABit'', ''clipabit.py''])"
    and refused: "denied w (Chmod (plugin_dir @ [''ClipABit'', ''clipabit.py'']))"
  shows "fst (copy_plugin_files w) = Inr False
         \<and> entry_at (snd (copy_plugin_files w)) q = entry_at w' q
         \<and> (q \<noteq> plugin_dir @ [''ClipABit'', ''clipabit.py''] \<longrightarrow>
              fs (snd (copy_plugin_files w)) q = fs w' q)
         \<and> fs w' (plugin_dir @ [''ClipABit'', ''clipabit.py'']) =
               map_option (set_mode 493)
                 (fs (snd (copy_plugin_files w)) (plugin_dir @ [''ClipABit'', ''clipabit.py'']))
         \<and> (exists w (plugin_source w @ [''clipabit.py'']) \<longrightarrow>
              fs (snd (copy_plugin_files w)) (plugin_dir @ [''ClipABit'', ''clipabit.py'']) =
                fs w (plugin_source w @ [''clipabit.py'']))"
proof -
  let ?P = "plugin_dir @ [''ClipABit'', ''clipabit.py'']"
  let ?T = "plugin_dir @ [''ClipABit'']"
  let ?S = "plugin_source w"
  let ?d = "(denied w)(Chmod ?P := False)"
  let ?w0 = "w\<lparr>denied := ?d\<rparr>"
  have res0: "get_resolve_plugin_directory ?w0 = Inr plugin_dir"
    using res by (simp add: get_resolve_plugin_directory_denied)
  from ok res0 obtain u1 u2 u3 where
    src0: "exists ?w0 (plugin_source ?w0)" and
    m0: "mkdir_parents plugin_dir ?w0 = Inr u1" and
    r0: "(if exists u1 ?T then rmtree ?T u1 else Inr u1) = Inr u2" and
    c0: "copytree (plugin_source ?w0) ?T u2 = Inr u3" and
    h0: "(if exists u3 ?P then chmod ?P 493 u3 else Inr u3) = Inr w'"
    by (rule copy_plugin_files_stages)
  have src: "exists w (plugin_source w)"
    using src0 by (simp add: exists_def plugin_source_def)
  from m0 obtain w1 where
    m: "mkdir_parents plugin_dir w = Inr w1" and u1: "u1 = w1\<lparr>denied := ?d\<rparr>"
    by (auto simp add: mkdir_parents_denied split: sum.splits)
  have d1: "denied w1 = denied w"
    using m by (rule mkdir_parents_keeps_denied)
  obtain w2 where
    r: "(if exists w1 ?T then rmtree ?T w1 else Inr w1) = Inr w2"
    and u2: "u2 = w2\<lparr>denied := ?d\<rparr>" and d2: "denied w2 = denied w"
  proof (cases "exists w1 ?T")
    case True
    with r0 u1 have "rmtree ?T (w1\<lparr>denied := ?d\<rparr>) = Inr u2"
      by (simp add: exists_def)
    then obtain v where v: "rmtree ?T w1 = Inr v" and "u2 = v\<lparr>denied := ?d\<rparr>"
      by (auto simp add: rmtree_denied d1 split: sum.splits)
    moreover from v have "denied v = denied w"
      by (simp add: rmtree_keeps_denied d1)
    ultimately show ?thesis
      using True that by simp
  next
    case False
    with r0 u1 have "u2 = w1\<lparr>denied := ?d\<rparr>"
      by (simp add: exists_def)
    with False d1 that show ?thesis by simp
  qed
  from c0 u2 have "copytree (plugin_source w) ?T (w2\<lparr>denied := ?d\<rparr>) = Inr u3"
    by (simp add: plugin_source_def)
  then obtain w3 where
    c: "copytree (plugin_source w) ?T w2 = Inr w3" and u3: "u3 = w3\<lparr>denied := ?d\<rparr>"
    by (auto simp add: copytree_denied d2 split: sum.splits)
  have d3: "denied w3 = denied w2"
    using c by (rule copytree_keeps_denied)
  have there0: "exists u3 ?P"
  proof (rule ccontr)
    assume "\<not> exists u3 ?P"
    with h0 have "w' = u3" by simp
    with deployed \<open>\<not> exists u3 ?P\<close> show False by simp
  qed
  then have there: "exists w3 ?P"
    by (simp add: u3 exists_def)
  have "chmod ?P 493 w3 = Inl PermissionError"
    using refused by (simp add: chmod_def d3 d2)
  with src res m r c there have result: "copy_plugin_files w = (Inr False, w3)"
    by (simp add: copy_plugin_files_def Let_def)
  from there0 h0 have "chmod ?P 493 u3 = Inr w'"
    by simp
  then obtain n where n: "fs u3 ?P = Some n"
    and w': "w' = u3\<lparr>fs := (fs u3)(?P \<mapsto> set_mode 493 n)\<rparr>"
    by (auto simp add: chmod_def split: if_splits option.splits)
  then have "entry_at w' q = entry_at u3 q"
    by (simp add: entry_at_set_mode)
  also have "\<dots> = entry_at w3 q"
    by (simp add: u3 entry_at_def)
  finally have same_entries: "entry_at w3 q = entry_at w' q"
    by simp
  have elsewhere: "q \<noteq> ?P \<longrightarrow> fs w3 q = fs w' q"
    by (simp add: w' u3)
  have entry_point: "fs w' ?P = map_option (set_mode 493) (fs w3 ?P)"
    using n by (simp add: w' u3)
  have as_copied: "fs w3 ?P = fs w (?S @ [''clipabit.py''])"
    if in_source: "exists w (?S @ [''clipabit.py''])"
  proof -
    have S_dir: "fs w2 ?S = Some Dir" and not_ST: "\<not> prefix ?S ?T"
      using copytree_fs(1,2) [OF c] by simp_all
    have kept1: "fs w1 (?S @ [''clipabit.py'']) = fs w (?S @ [''clipabit.py''])"
      using in_source by (simp add: mkdir_parents_fs [OF m] exists_def)
    have kept2: "fs w2 (?S @ [''clipabit.py'']) = fs w1 (?S @ [''clipabit.py''])"
    proof (cases "exists w1 ?T")
      case False
      with r show ?thesis by simp
    next
      case True
      with r have rm: "rmtree ?T w1 = Inr w2" by simp
      have not_TS: "\<not> prefix ?T ?S"
        using S_dir rmtree_fs(2) [OF rm, of ?S] by (auto split: if_splits)
      have "\<not> prefix ?T (?S @ [''clipabit.py''])"
      proof
        assume "prefix ?T (?S @ [''clipabit.py''])"
        moreover have "prefix ?S (?S @ [''clipabit.py''])" by simp
        ultimately have "prefix ?T ?S \<or> prefix ?S ?T"
          by (rule prefix_same_cases)
        with not_TS not_ST show False by blast
      qed
      then show ?thesis
        by (simp add: rmtree_fs(2) [OF rm])
    qed
    have "fs w3 (?T @ [''clipabit.py'']) = fs w (?S @ [''clipabit.py''])"
      using copytree_fs(3) [OF c, of "[''clipabit.py'']"] in_source
      by (auto simp add: kept1 kept2 exists_def split: option.splits)
    then show ?thesis by simp
  qed
  from result same_entries elsewhere entry_point as_copied show ?thesis
    by simp
qed

theorem chmod_failure_returns_false_witness:
  "denied chmod_denied_world
     (Chmod (darwin_user_plugin_dir mac_world @ [''ClipABit'', ''clipabit.py'']))
   \<and> fst (copy_plugin_files
        (chmod_denied_world\<lparr>denied := (denied chmod_denied_world)
           (Chmod (darwin_user_plugin_dir mac_world @ [''ClipABit'', ''clipabit.py''])
              := False)\<rparr>)) = Inr True
   \<and> fs (snd (copy_plugin_files
        (chmod_denied_world\<lparr>denied := (denied chmod_denied_world)
           (Chmod (darwin_user_plugin_dir mac_world @ [''ClipABit'', ''clipabit.py''])
              := False)\<rparr>)))
        (darwin_user_plugin_dir mac_world @ [''ClipABit'', ''clipabit.py''])
       = Some (File ''import ui'' 493)
   \<and> fst (copy_plugin_files chmod_denied_world) = Inr False
   \<and> fs (snd (copy_plugin_files chmod_denied_world))
        (darwin_user_plugin_dir mac_world @ [''ClipABit'', ''clipabit.py''])
       = Some (File ''import ui'' 420)
   \<and> fs (snd (copy_plugin_files chmod_denied_world))
        (darwin_user_plugin_dir mac_world @ [''ClipABit''])
       = Some Dir"
proof -
  let ?d = "darwin_user_plugin_dir mac_world"
  let ?w = chmod_denied_world
  let ?permitted =
    "?w\<lparr>denied := (denied ?w)(Chmod (?d @ [''ClipABit'', ''clipabit.py'']) := False)\<rparr>"
  have res: "get_resolve_plugin_directory ?w = Inr ?d"
    by code_simp
  have succeeds: "fst (copy_plugin_files ?permitted) = Inr True"
    by code_simp
  then have ok: "copy_plugin_files ?permitted = (Inr True, snd (copy_plugin_files ?permitted))"
    by (metis prod.collapse)
  have deployed: "exists (snd (copy_plugin_files ?permitted))
                    (?d @ [''ClipABit'', ''clipabit.py''])"
    by code_simp
  have refused: "denied ?w (Chmod (?d @ [''ClipABit'', ''clipabit.py'']))"
    by code_simp
  have in_source: "exists ?w (plugin_source ?w @ [''clipabit.py''])"
    by code_simp
  have source_entry: "fs ?w (plugin_source ?w @ [''clipabit.py''])
                        = Some (File ''import ui'' 420)"
    by code_simp
  have target_dir: "fs (snd (copy_plugin_files ?permitted)) (?d @ [''ClipABit'']) = Some Dir"
    by code_simp
  note at_entry =
    chmod_failure_returns_false
      [OF res ok deployed refused, of "?d @ [''ClipABit'', ''clipabit.py'']"]
  note at_dir =
    chmod_failure_returns_false [OF res ok deployed refused, of "?d @ [''ClipABit'']"]
  from at_entry in_source source_entry
  have failed: "fst (copy_plugin_files ?w) = Inr False"
    and left: "fs (snd (copy_plugin_files ?w)) (?d @ [''ClipABit'', ''clipabit.py''])
                 = Some (File ''import ui'' 420)"
    by simp_all
  from at_entry left
  have set: "fs (snd (copy_plugin_files ?permitted)) (?d @ [''ClipABit'', ''clipabit.py''])
               = Some (File ''import ui'' 493)"
    by simp
  from at_dir target_dir
  have dir: "fs (snd (copy_plugin_files ?w)) (?d @ [''ClipABit'']) = Some Dir"
    by simp
  from refused succeeds set failed left dir show ?thesis by blast
qed

section \<open>Verification\<close>



section \<open>A failing installation\<close>

text \<open>The loop of \<^verbatim>\<open>install_dependencies\<close> on a list that starts with \<open>a\<close> and \<open>b\<close>,
  when installing \<open>a\<close> succeeds and installing \<open>b\<close> exits with a non-zero code and a
  standard error that is empty or decodes: the result is \<^verbatim>\<open>False\<close>, the two
  installations are the only calls made, and the world is the one the second child left
  behind, so nothing of the first installation is undone and nothing after \<open>b\<close> is
  tried.\<close>

lemma install_loop_first_failure:
  assumes "run [''python3'', ''-m'', ''pip'', ''install'', ''--upgrade'', a] w
             = (Run_completed 0 err_a, wa)"
    and "run [''python3'', ''-m'', ''pip'', ''install'', ''--upgrade'', b]
             (wa\<lparr>calls := calls w @ [[''python3'', ''-m'', ''pip'', ''install'', ''--upgrade'', a]]\<rparr>)
           = (Run_completed rc err_b, wb)"
    and "rc \<noteq> 0" and "err_b \<noteq> Invalid_utf8"
  shows "install_loop run (a # b # rest) w =
           (Inr False,
            wb\<lparr>calls := calls w @
               [[''python3'', ''-m'', ''pip'', ''install'', ''--upgrade'', a],
                [''python3'', ''-m'', ''pip'', ''install'', ''--upgrade'', b]]\<rparr>)"
  using assms by (cases err_b) (simp_all add: subprocess_run_def)

text \<open>
  Claim C5 says that \<^verbatim>\<open>install_dependencies\<close> returns \<^verbatim>\<open>False\<close> whenever the second
  installation exits with a non-zero code. The handler of that failure prints
  \<^verbatim>\<open>e.stderr.decode()\<close> before it returns, and \<^verbatim>\<open>decode\<close> raises on bytes that are not
  UTF-8. With the dependencies \<open>a\<close>, \<open>b\<close>, \<open>c\<close> and a package manager whose failure on
  \<open>b\<close> writes such bytes, \<^verbatim>\<open>install_dependencies\<close> does not return: a
  \<^verbatim>\<open>UnicodeDecodeError\<close> leaves it. The rest of the claim holds there too: \<open>a\<close> stays
  installed and \<open>c\<close> is never tried.
\<close>

theorem undecodable_stderr_escapes:
  "get_dependencies_from_pyproject abc_world = [''a'', ''b'', ''c'']
   \<and> fst (install_dependencies flaky_pip abc_world) = Inl UnicodeDecodeError
   \<and> fst (install_dependencies flaky_pip abc_world) \<noteq> Inr False
   \<and> calls (snd (install_dependencies flaky_pip abc_world)) =
       [[''python3'', ''-m'', ''pip'', ''install'', ''--upgrade'', ''a''],
        [''python3'', ''-m'', ''pip'', ''install'', ''--upgrade'', ''b'']]
   \<and> entry_at (snd (install_dependencies flaky_pip abc_world)) [''site-packages'', ''a'']
       = Regular []"
  by code_simp

end
